theory Spec2Isabelle
  imports Complex_Main "HOL-Library.Word" "HOL-Library.Log_Nat"
begin

unbundle bit_operations_syntax

section \<open>The voice agent's real-time session pipeline (server.js)\<close>

text \<open>
  The development follows \<^verbatim>\<open>src/server.js\<close>: first the audio codec bridge
  (\<^verbatim>\<open>muLawToPcm\<close>, \<^verbatim>\<open>pcmToMuLaw\<close>), then the three service adapters, the two
  process-wide tables (\<^verbatim>\<open>connections\<close>, \<^verbatim>\<open>conversationHistory\<close>) and the socket
  listeners.

  Conventions. A Node \<^verbatim>\<open>Buffer\<close> is a list of bytes. JavaScript numbers that the
  code only uses as 32-bit integers are \<open>int\<close>; every intermediate value of the codec
  stays far below \<open>2^31\<close>, so no wrap-around of \<^verbatim>\<open><<\<close> is lost. A thrown exception
  or a rejected promise is \<open>Inl\<close> of an \<open>error\<close>.
\<close>

type_synonym byte = "8 word"

datatype error =
    RangeError    \<comment> \<open>Buffer read or write out of range\<close>
  | TypeError     \<comment> \<open>property access or call on a value that does not support it\<close>
  | AxiosError    \<comment> \<open>a rejected \<^verbatim>\<open>axios.post\<close>\<close>
  | PollyError    \<comment> \<open>a rejected \<^verbatim>\<open>pollyClient.send\<close> or a failing audio stream\<close>

subsection \<open>Audio codec bridge\<close>

text \<open>
  \<^verbatim>\<open>buf.writeInt16LE(value, offset)\<close> throws a RangeError unless
  \<open>-32768 \<le> value \<le> 32767\<close>; otherwise it stores the low byte, then the high byte.
\<close>

definition writeInt16LE :: "int \<Rightarrow> error + byte list" where
  "writeInt16LE v =
     (if v < - 32768 \<or> 32767 < v then Inl RangeError
      else Inr [word_of_int v, word_of_int (drop_bit 8 v)])"

text \<open>
  The body of the loop of \<^verbatim>\<open>muLawToPcm\<close> (lines 210 to 215): the sample computed
  from one companded byte.
\<close>

definition muLaw_sample :: "byte \<Rightarrow> int" where
  "muLaw_sample b =
     (let c = NOT (uint b);
          mantissa = c AND 0x0F;
          exponent = drop_bit 4 (c AND 0x70);
          magnitude = push_bit (nat (exponent + 3)) (push_bit 4 mantissa + 0x08)
      in if c AND 0x80 \<noteq> 0 then - magnitude else magnitude)"

text \<open>
  \<^verbatim>\<open>muLawToPcm\<close>: the result buffer has two bytes per input byte; the loop writes the
  samples in order and the first failing write ends the call.
\<close>

fun muLawToPcm :: "byte list \<Rightarrow> error + byte list" where
  "muLawToPcm [] = Inr []"
| "muLawToPcm (b # bs) =
     (case writeInt16LE (muLaw_sample b) of
        Inl e \<Rightarrow> Inl e
      | Inr w \<Rightarrow> (case muLawToPcm bs of Inl e \<Rightarrow> Inl e | Inr r \<Rightarrow> Inr (w @ r)))"

text \<open>
  \<^verbatim>\<open>buf.readInt16LE(i)\<close> throws a RangeError when the two bytes at \<open>i\<close> are not
  both inside the buffer; otherwise it reads them as a little-endian two's complement
  number.
\<close>

definition readInt16LE :: "byte list \<Rightarrow> nat \<Rightarrow> error + int" where
  "readInt16LE buf i =
     (if length buf < i + 2 then Inl RangeError
      else Inr (sint (word_cat (buf ! (i + 1)) (buf ! i) :: 16 word)))"

text \<open>
  The first loop of \<^verbatim>\<open>pcmToMuLaw\<close> (lines 231 to 235): one sample is read at every
  fourth byte offset below the length of the buffer.
\<close>

function read_samples :: "byte list \<Rightarrow> nat \<Rightarrow> error + int list" where
  "read_samples pcmBuffer i =
     (if i < length pcmBuffer then
        (case readInt16LE pcmBuffer i of
           Inl e \<Rightarrow> Inl e
         | Inr sample \<Rightarrow>
             (case read_samples pcmBuffer (i + 4) of
                Inl e \<Rightarrow> Inl e
              | Inr samples \<Rightarrow> Inr (sample # samples)))
      else Inr [])"
  by pat_completeness auto
termination
  by (relation "measure (\<lambda>(pcmBuffer, i). length pcmBuffer - i)") auto

declare read_samples.simps [simp del]

text \<open>
  \<^verbatim>\<open>Math.floor(Math.log1p(magnitude / 32) / Math.LN2)\<close> for a magnitude that
  \<^verbatim>\<open>Math.abs\<close> returned, read in exact real arithmetic. The double-precision
  evaluation agrees with it at magnitude 0 and can only differ from it at the other
  magnitudes for which \<open>1 + magnitude / 32\<close> is an exact power of two (32, 96, 224
  and so on); no concrete input used below is one of them.
\<close>

definition mu_exponent :: "nat \<Rightarrow> nat" where
  "mu_exponent magnitude = nat \<lfloor>log 2 (1 + real magnitude / 32)\<rfloor>"

text \<open>
  The body of the second loop of \<^verbatim>\<open>pcmToMuLaw\<close> (lines 238 to 246). Storing a
  number into a Buffer element keeps its low eight bits.
\<close>

definition muLaw_byte :: "int \<Rightarrow> byte" where
  "muLaw_byte x =
     (let sign = drop_bit 8 x AND 0x80;
          magnitude = (if 32635 < \<bar>x\<bar> then 32635 else \<bar>x\<bar>);
          exponent = mu_exponent (nat magnitude);
          mantissa = drop_bit (exponent + 3) magnitude AND 0x0F;
          muLaw = NOT (sign OR push_bit 4 (int exponent) OR mantissa)
      in word_of_int muLaw)"

definition pcmToMuLaw :: "byte list \<Rightarrow> error + byte list" where
  "pcmToMuLaw pcmBuffer =
     (case read_samples pcmBuffer 0 of
        Inl e \<Rightarrow> Inl e
      | Inr samples \<Rightarrow> Inr (map muLaw_byte samples))"

subsection \<open>Strings, tables and wire messages\<close>

text \<open>
  JavaScript strings are modelled as \<open>string\<close>, one \<open>char\<close> per code unit below 256.
  \<^verbatim>\<open>String.prototype.trim\<close> removes white space and line terminators from both ends;
  below 256 these are tab, line feed, vertical tab, form feed, carriage return, space and
  the no-break space.
\<close>

definition js_whitespace :: "char \<Rightarrow> bool" where
  "js_whitespace c =
     (c \<in> set [CHR 0x09, CHR 0x0A, CHR 0x0B, CHR 0x0C, CHR 0x0D, CHR 0x20, CHR 0xA0])"

definition trim :: "string \<Rightarrow> string" where
  "trim s = rev (dropWhile js_whitespace (rev (dropWhile js_whitespace s)))"

text \<open>
  \<^verbatim>\<open>connections\<close> and \<^verbatim>\<open>conversationHistory\<close> are plain objects used as tables
  keyed by the call identifier. A table is the map of its own properties. Reading a key
  that is not an own property finds the member of \<^verbatim>\<open>Object.prototype\<close> of that name,
  if there is one: a truthy value that is neither a socket nor an array. Assigning to
  the key \<^verbatim>\<open>__proto__\<close> creates no own property (it replaces the prototype of the
  table); the model does not follow a replaced prototype, so it describes the runs in
  which no accepted connection carries that identifier.
\<close>

type_synonym call_sid = string

definition object_prototype_keys :: "string list" where
  "object_prototype_keys =
     [''constructor'', ''__proto__'', ''hasOwnProperty'', ''isPrototypeOf'',
      ''propertyIsEnumerable'', ''toLocaleString'', ''toString'', ''valueOf'',
      ''__defineGetter__'', ''__defineSetter__'', ''__lookupGetter__'',
      ''__lookupSetter__'']"

datatype 'v property = Undefined | Own 'v | Inherited

definition js_get :: "(string \<rightharpoonup> 'v) \<Rightarrow> string \<Rightarrow> 'v property" where
  "js_get obj k =
     (case obj k of
        Some v \<Rightarrow> Own v
      | None \<Rightarrow> if k \<in> set object_prototype_keys then Inherited else Undefined)"

definition js_set :: "(string \<rightharpoonup> 'v) \<Rightarrow> string \<Rightarrow> 'v \<Rightarrow> (string \<rightharpoonup> 'v)" where
  "js_set obj k v = (if k = ''__proto__'' then obj else obj(k \<mapsto> v))"

definition js_delete :: "(string \<rightharpoonup> 'v) \<Rightarrow> string \<Rightarrow> (string \<rightharpoonup> 'v)" where
  "js_delete obj k = obj(k := None)"

text \<open>
  Inbound frames. The text of a frame fails \<^verbatim>\<open>JSON.parse\<close>, or parses to
  \<^verbatim>\<open>null\<close>, or is an envelope with an optional \<^verbatim>\<open>event\<close> string and an
  optional \<^verbatim>\<open>media\<close> object holding an optional \<^verbatim>\<open>payload\<close> string (the
  base64 text of the caller's audio). An absent field is \<open>None\<close>; any other JSON
  value has no fields at all.
\<close>

datatype media = Media (payload: "string option")

datatype message = Message (event: "string option") (media: "media option")

datatype ws_data = NotJson | JsonNull | Json message

text \<open>
  Outbound frames: the two objects that \<^verbatim>\<open>handleMediaMessage\<close> passes to
  \<^verbatim>\<open>JSON.stringify\<close>. The payload of a media frame is
  \<^verbatim>\<open>muLawAudio.toString('base64')\<close>; the model keeps the bytes that this text encodes.
\<close>

datatype outbound = Clear | MediaOut "byte list"

subsection \<open>Service adapters\<close>

text \<open>
  Each adapter is an \<^verbatim>\<open>async\<close> function around one remote call. It is modelled in
  two parts: what it does before the call is awaited, and what it does with the outcome
  of the call, a value or a rejection (\<open>Inl\<close>).
\<close>

record config =
  GOOGLE_SPEECH_API_KEY :: string
  systemPrompt :: string   \<comment> \<open>\<^verbatim>\<open>process.env.SYSTEM_PROMPT\<close>, or the built-in prompt\<close>

text \<open>The reply of the speech API: \<^verbatim>\<open>response.data.results\<close>, when present.\<close>

datatype alternative = Alternative (alt_transcript: "string option")

datatype stt_result = SttResult (alternatives: "alternative list option")

type_synonym speech_response = "stt_result list option"

text \<open>
  \<^verbatim>\<open>transcribeAudio\<close>, lines 268 to 293, once \<^verbatim>\<open>axios.post\<close> has settled. Every
  failure inside the \<^verbatim>\<open>try\<close> block ends in the empty transcript.
\<close>

definition transcribeAudio_resume :: "error + speech_response \<Rightarrow> string" where
  "transcribeAudio_resume outcome =
     (case outcome of
        Inl err \<Rightarrow> ''''
      | Inr data \<Rightarrow>
          (let results = (case data of None \<Rightarrow> [] | Some rs \<Rightarrow> rs)
           in case results of
                [] \<Rightarrow> ''''
              | r # _ \<Rightarrow>
                  (case alternatives r of
                     None \<Rightarrow> ''''
                   | Some [] \<Rightarrow> ''''
                   | Some (a # _) \<Rightarrow> (case alt_transcript a of None \<Rightarrow> '''' | Some t \<Rightarrow> t))))"

text \<open>Chat messages, and the reply of the chat API: \<^verbatim>\<open>response.data.choices\<close>.\<close>

datatype role = System | User | Assistant

datatype chat_message = ChatMessage (role: role) (content: string)

datatype chat_choice = Choice (message_content: "string option")

type_synonym history = "call_sid \<rightharpoonup> chat_message list"

text \<open>
  \<^verbatim>\<open>generateLLMReply\<close>, lines 320 to 338: either it returns the empty reply at once,
  or iterating over a table entry that is not an array throws, or it posts the system
  prompt, the history of the call and the new utterance. In the last case the history
  of a call seen for the first time has been initialised to the empty array.
\<close>

datatype llm_begin = Return string | Throw error | Post "chat_message list" history

definition generateLLMReply_begin ::
    "config \<Rightarrow> string \<Rightarrow> call_sid \<Rightarrow> history \<Rightarrow> llm_begin" where
  "generateLLMReply_begin cfg transcript callSid hist =
     (if transcript = '''' \<or> length (trim transcript) = 0 then Return ''''
      else
        (case js_get hist callSid of
           Inherited \<Rightarrow> Throw TypeError
         | Undefined \<Rightarrow>
             Post ([ChatMessage System (systemPrompt cfg)] @ [] @ [ChatMessage User transcript])
                  (js_set hist callSid [])
         | Own h \<Rightarrow>
             Post ([ChatMessage System (systemPrompt cfg)] @ h @ [ChatMessage User transcript])
                  hist))"

text \<open>
  \<^verbatim>\<open>generateLLMReply\<close>, lines 340 to 366, once \<^verbatim>\<open>axios.post\<close> has settled: the
  reply and the table afterwards. Whatever throws inside the \<^verbatim>\<open>try\<close> block (the
  rejected call, a reply without a first choice or without content, a table entry
  without \<^verbatim>\<open>push\<close>) ends in the echo of the utterance.
\<close>

definition generateLLMReply_resume ::
    "string \<Rightarrow> call_sid \<Rightarrow> error + chat_choice list \<Rightarrow> history \<Rightarrow> string \<times> history" where
  "generateLLMReply_resume transcript callSid outcome hist =
     (let fallback = (''You said: '' @ transcript, hist)
      in case outcome of
           Inl err \<Rightarrow> fallback
         | Inr [] \<Rightarrow> fallback
         | Inr (choice # _) \<Rightarrow>
             (case message_content choice of
                None \<Rightarrow> fallback
              | Some c \<Rightarrow>
                  (let replyContent = trim c
                   in case hist callSid of
                        None \<Rightarrow> fallback
                      | Some h \<Rightarrow>
                          (replyContent,
                           hist(callSid \<mapsto>
                             (h @ [ChatMessage User transcript])
                               @ [ChatMessage Assistant replyContent])))))"

text \<open>
  \<^verbatim>\<open>synthesizeSpeech\<close>, lines 385 to 391, once Polly has answered and the audio stream
  has been read: there is no \<^verbatim>\<open>try\<close> block, a rejection is thrown to the caller.
\<close>

definition synthesizeSpeech_resume :: "error + byte list \<Rightarrow> error + byte list" where
  "synthesizeSpeech_resume outcome =
     (case outcome of Inl err \<Rightarrow> Inl err | Inr audio \<Rightarrow> Inr audio)"

subsection \<open>Server state and suspended pipelines\<close>

text \<open>
  A socket is known by a number. The local \<^verbatim>\<open>ws\<close> of \<^verbatim>\<open>handleMediaMessage\<close>
  holds what the table lookup found: a socket, or an inherited member of
  \<^verbatim>\<open>Object.prototype\<close>, which is truthy and has no \<^verbatim>\<open>send\<close>.
\<close>

type_synonym ws = nat

datatype ws_ref = Socket ws | NotASocket

text \<open>
  An invocation of \<^verbatim>\<open>handleMediaMessage\<close> that waits for a remote call: at line 178
  for the speech API (with the base64 text of the audio), at line 183 for the chat API
  (with the utterance and the messages posted), at line 185 for Polly (with the text).
\<close>

datatype task =
    AwaitTranscribe call_sid ws_ref string
  | AwaitReply call_sid ws_ref string "chat_message list"
  | AwaitSynth ws_ref string

text \<open>
  The state of the process: the two tables of the source; the sockets on which the
  connection handler has installed its listeners, each with the call identifier its
  listeners closed over; the suspended pipelines; the frames handed to \<^verbatim>\<open>ws.send\<close>,
  in order, whatever the state of the socket; the sockets on which the server called
  \<^verbatim>\<open>ws.close()\<close>; and the errors
  that left \<^verbatim>\<open>handleMediaMessage\<close> and rejected the promise of the message listener,
  which nothing handles (by default Node then ends the process).
\<close>

record server =
  connections :: "call_sid \<rightharpoonup> ws"
  conversationHistory :: history
  sessions :: "(ws \<times> call_sid) list"
  tasks :: "task list"
  outbox :: "(ws \<times> outbound) list"
  close_calls :: "ws list"
  unhandled :: "error list"

definition initial :: server where
  "initial =
     \<lparr>connections = Map.empty, conversationHistory = Map.empty, sessions = [],
      tasks = [], outbox = [], close_calls = [], unhandled = []\<rparr>"

definition suspend :: "task \<Rightarrow> server \<Rightarrow> server" where
  "suspend t st = st\<lparr>tasks := tasks st @ [t]\<rparr>"

definition finish_task :: "nat \<Rightarrow> server \<Rightarrow> server" where
  "finish_task i st = st\<lparr>tasks := take i (tasks st) @ drop (Suc i) (tasks st)\<rparr>"

definition reject :: "error \<Rightarrow> server \<Rightarrow> server" where
  "reject err st = st\<lparr>unhandled := unhandled st @ [err]\<rparr>"

subsection \<open>handleMediaMessage\<close>

text \<open>
  Lines 186 to 195, with the audio that \<^verbatim>\<open>synthesizeSpeech\<close> returned: encode, then
  send \<^verbatim>\<open>clear\<close> and the media frame on the socket.
\<close>

definition handleMediaMessage_synthesized :: "ws_ref \<Rightarrow> byte list \<Rightarrow> server \<Rightarrow> server" where
  "handleMediaMessage_synthesized sock speechAudio st =
     (case pcmToMuLaw speechAudio of
        Inl err \<Rightarrow> reject err st
      | Inr muLawAudio \<Rightarrow>
          (case sock of
             NotASocket \<Rightarrow> reject TypeError st
           | Socket w \<Rightarrow> st\<lparr>outbox := outbox st @ [(w, Clear), (w, MediaOut muLawAudio)]\<rparr>))"

text \<open>
  Lines 184 and 185, with the reply: \<^verbatim>\<open>synthesizeSpeech\<close> returns an empty buffer at
  once for an empty text (line 376) and calls Polly otherwise.
\<close>

definition handleMediaMessage_replied :: "ws_ref \<Rightarrow> string \<Rightarrow> server \<Rightarrow> server" where
  "handleMediaMessage_replied sock reply st =
     (if reply = '''' then handleMediaMessage_synthesized sock [] st
      else suspend (AwaitSynth sock reply) st)"

text \<open>Lines 179 to 183, with the transcript: return on an empty one, else ask for a reply.\<close>

definition handleMediaMessage_transcribed ::
    "config \<Rightarrow> call_sid \<Rightarrow> ws_ref \<Rightarrow> string \<Rightarrow> server \<Rightarrow> server" where
  "handleMediaMessage_transcribed cfg callSid sock transcript st =
     (if transcript = '''' then st
      else
        (case generateLLMReply_begin cfg transcript callSid (conversationHistory st) of
           Return reply \<Rightarrow> handleMediaMessage_replied sock reply st
         | Throw err \<Rightarrow> reject err st
         | Post messages hist \<Rightarrow>
             suspend (AwaitReply callSid sock transcript messages)
               (st\<lparr>conversationHistory := hist\<rparr>)))"

text \<open>
  \<^verbatim>\<open>transcribeAudio\<close>, lines 264 to 284: without an API key the transcript is empty
  at once; with one, the audio is posted to the speech API.
\<close>

definition handleMediaMessage_transcribe ::
    "config \<Rightarrow> call_sid \<Rightarrow> ws_ref \<Rightarrow> string \<Rightarrow> server \<Rightarrow> server" where
  "handleMediaMessage_transcribe cfg callSid sock audio st =
     (if GOOGLE_SPEECH_API_KEY cfg = '''' then
        handleMediaMessage_transcribed cfg callSid sock '''' st
      else suspend (AwaitTranscribe callSid sock audio) st)"

text \<open>Lines 166 to 178: the two early returns, then the transcription.\<close>

definition handleMediaMessage :: "config \<Rightarrow> call_sid \<Rightarrow> message \<Rightarrow> server \<Rightarrow> server" where
  "handleMediaMessage cfg callSid msg st =
     (case (case media msg of None \<Rightarrow> None | Some m \<Rightarrow> payload m) of
        None \<Rightarrow> st
      | Some audio \<Rightarrow>
          if audio = '''' then st
          else
            (case js_get (connections st) callSid of
               Undefined \<Rightarrow> st
             | Own w \<Rightarrow> handleMediaMessage_transcribe cfg callSid (Socket w) audio st
             | Inherited \<Rightarrow> handleMediaMessage_transcribe cfg callSid NotASocket audio st))"

subsection \<open>Socket listeners and the event loop\<close>

text \<open>
  The connection handler, lines 122 to 131: a connection without a call identifier
  (absent or empty) is closed and gets no listeners; every other connection is stored in
  the table under its identifier and gets the two listeners.
\<close>

definition on_connection :: "ws \<Rightarrow> string option \<Rightarrow> server \<Rightarrow> server" where
  "on_connection w query st =
     (case query of
        None \<Rightarrow> st\<lparr>close_calls := close_calls st @ [w]\<rparr>
      | Some callSid \<Rightarrow>
          if callSid = '''' then st\<lparr>close_calls := close_calls st @ [w]\<rparr>
          else st\<lparr>connections := js_set (connections st) callSid w,
                  sessions := sessions st @ [(w, callSid)]\<rparr>)"

text \<open>
  The message listener, lines 132 to 149. A frame that does not parse is dropped inside
  the \<^verbatim>\<open>try\<close> block; reading \<^verbatim>\<open>message.event\<close> of \<^verbatim>\<open>null\<close> throws outside it.
\<close>

definition on_message :: "config \<Rightarrow> ws \<Rightarrow> call_sid \<Rightarrow> ws_data \<Rightarrow> server \<Rightarrow> server" where
  "on_message cfg w callSid d st =
     (case d of
        NotJson \<Rightarrow> st
      | JsonNull \<Rightarrow> reject TypeError st
      | Json msg \<Rightarrow>
          if event msg = Some ''media'' then handleMediaMessage cfg callSid msg st
          else if event msg = Some ''closed'' then
            st\<lparr>close_calls := close_calls st @ [w],
               connections := js_delete (connections st) callSid\<rparr>
          else st)"

text \<open>The close listener, lines 151 to 154; the closed socket has no listeners any more.\<close>

definition on_close :: "ws \<Rightarrow> call_sid \<Rightarrow> server \<Rightarrow> server" where
  "on_close w callSid st =
     st\<lparr>connections := js_delete (connections st) callSid,
        sessions := filter (\<lambda>s. fst s \<noteq> w) (sessions st)\<rparr>"

text \<open>
  What the event loop can deliver: a new connection with its \<^verbatim>\<open>callSid\<close> query
  parameter, a frame or the close of a socket, and the settling of the remote call
  that the suspended pipeline at a given position waits for. Each event runs its
  handler up to the next remote call or to the end. A frame or a close of a socket
  without listeners, and a settling that matches no suspended pipeline, change nothing.
\<close>

datatype event =
    Connection ws "string option"
  | WsMessage ws ws_data
  | WsClose ws
  | SpeechSettled nat "error + speech_response"
  | ChatSettled nat "error + chat_choice list"
  | PollySettled nat "error + byte list"

fun step :: "config \<Rightarrow> event \<Rightarrow> server \<Rightarrow> server" where
  "step cfg (Connection w query) st = on_connection w query st"
| "step cfg (WsMessage w d) st =
     (case map_of (sessions st) w of
        None \<Rightarrow> st
      | Some callSid \<Rightarrow> on_message cfg w callSid d st)"
| "step cfg (WsClose w) st =
     (case map_of (sessions st) w of
        None \<Rightarrow> st
      | Some callSid \<Rightarrow> on_close w callSid st)"
| "step cfg (SpeechSettled i outcome) st =
     (if i < length (tasks st) then
        (case tasks st ! i of
           AwaitTranscribe callSid sock audio \<Rightarrow>
             handleMediaMessage_transcribed cfg callSid sock
               (transcribeAudio_resume outcome) (finish_task i st)
         | _ \<Rightarrow> st)
      else st)"
| "step cfg (ChatSettled i outcome) st =
     (if i < length (tasks st) then
        (case tasks st ! i of
           AwaitReply callSid sock transcript messages \<Rightarrow>
             (case generateLLMReply_resume transcript callSid outcome
                     (conversationHistory st) of
                (reply, hist) \<Rightarrow>
                  handleMediaMessage_replied sock reply
                    (finish_task i (st\<lparr>conversationHistory := hist\<rparr>)))
         | _ \<Rightarrow> st)
      else st)"
| "step cfg (PollySettled i outcome) st =
     (if i < length (tasks st) then
        (case tasks st ! i of
           AwaitSynth sock text \<Rightarrow>
             (case synthesizeSpeech_resume outcome of
                Inl err \<Rightarrow> reject err (finish_task i st)
              | Inr speechAudio \<Rightarrow>
                  handleMediaMessage_synthesized sock speechAudio (finish_task i st))
         | _ \<Rightarrow> st)
      else st)"

text \<open>A run of the server: the events in the order in which the loop delivers them.\<close>

fun run :: "config \<Rightarrow> event list \<Rightarrow> server \<Rightarrow> server" where
  "run cfg [] st = st"
| "run cfg (ev # evs) st = run cfg evs (step cfg ev st)"

subsection \<open>generateLLMReply as one call\<close>

text \<open>
  \<^verbatim>\<open>generateLLMReply\<close> from entry to return, given what \<^verbatim>\<open>axios.post\<close> settles
  with if the call is made, and with nothing else touching the table in between: the
  thrown error, or the reply and the table afterwards.
\<close>

definition generateLLMReply ::
    "config \<Rightarrow> string \<Rightarrow> call_sid \<Rightarrow> error + chat_choice list \<Rightarrow> history
       \<Rightarrow> error + string \<times> history" where
  "generateLLMReply cfg transcript callSid outcome hist =
     (case generateLLMReply_begin cfg transcript callSid hist of
        Return reply \<Rightarrow> Inr (reply, hist)
      | Throw err \<Rightarrow> Inl err
      | Post messages hist' \<Rightarrow>
          Inr (generateLLMReply_resume transcript callSid outcome hist'))"

text \<open>The turns recorded for a call: the array in the table, none when there is no entry.\<close>

definition turns :: "history \<Rightarrow> call_sid \<Rightarrow> chat_message list" where
  "turns hist callSid = (case hist callSid of None \<Rightarrow> [] | Some h \<Rightarrow> h)"

subsection \<open>Well-formed outbound traffic\<close>

text \<open>
  The frames sent so far form response bursts when they are a sequence of pairs, each a
  \<^verbatim>\<open>clear\<close> frame followed at once by a media frame on the same socket.
\<close>

fun response_bursts :: "(ws \<times> outbound) list \<Rightarrow> bool" where
  "response_bursts [] = True"
| "response_bursts ((w, Clear) # (w', MediaOut b) # rest) = (w = w' \<and> response_bursts rest)"
| "response_bursts _ = False"

text \<open>
  Between two states the server has sent nothing, or exactly one such pair.
\<close>

definition one_burst :: "server \<Rightarrow> server \<Rightarrow> bool" where
  "one_burst st st' =
     (outbox st' = outbox st
      \<or> (\<exists>w b. outbox st' = outbox st @ [(w, Clear), (w, MediaOut b)]))"

subsection \<open>Scenarios\<close>

text \<open>
  Concrete runs used below. The configuration has a speech API key, so that audio is
  sent for transcription; the frames and replies are the smallest of their kind.
\<close>

definition test_config :: config where
  "test_config = \<lparr>GOOGLE_SPEECH_API_KEY = ''key'', systemPrompt = ''Be brief.''\<rparr>"

definition media_frame :: "string \<Rightarrow> ws_data" where
  "media_frame audio = Json (Message (Some ''media'') (Some (Media (Some audio))))"

definition closed_frame :: ws_data where
  "closed_frame = Json (Message (Some ''closed'') None)"

definition heard :: "string \<Rightarrow> error + speech_response" where
  "heard t = Inr (Some [SttResult (Some [Alternative (Some t)])])"

definition answered :: "string \<Rightarrow> error + chat_choice list" where
  "answered c = Inr [Choice (Some c)]"

definition no_key_config :: config where
  "no_key_config = \<lparr>GOOGLE_SPEECH_API_KEY = '''', systemPrompt = ''Be brief.''\<rparr>"

text \<open>One connection, nothing received yet.\<close>

definition connected_once :: server where
  "connected_once = run test_config [Connection 1 (Some ''CA123'')] initial"

text \<open>Then a second connection that carries the same call identifier.\<close>

definition connected_twice :: server where
  "connected_twice = run test_config [Connection 2 (Some ''CA123'')] connected_once"

text \<open>One connection and a media frame that waits for its transcript.\<close>

definition first_frame_pending :: server where
  "first_frame_pending = run test_config [WsMessage 1 (media_frame ''fn5+'')] connected_once"

text \<open>Then a second media frame of the same call, before the first is transcribed.\<close>

definition two_frames :: server where
  "two_frames = run test_config [WsMessage 1 (media_frame ''f39/'')] first_frame_pending"

text \<open>One call and one utterance, up to the moment the chat API is asked for a reply.\<close>

definition reply_pending :: server where
  "reply_pending =
     run test_config
       [Connection 1 (Some ''CA124''),
        WsMessage 1 (media_frame ''fn5+''),
        SpeechSettled 0 (heard ''book a ride'')]
       initial"

text \<open>The reply arrives and Polly is asked for the audio.\<close>

definition synthesis_pending :: server where
  "synthesis_pending =
     run test_config [ChatSettled 0 (answered '' Sure, booking it. '')] reply_pending"

text \<open>The synthesis fails.\<close>

definition synthesis_fails :: server where
  "synthesis_fails = run test_config [PollySettled 0 (Inl PollyError)] synthesis_pending"

text \<open>Or the synthesis succeeds and the reply is played.\<close>

definition turn_played :: server where
  "turn_played =
     run test_config [PollySettled 0 (Inr [0x00, 0x01, 0x00, 0x00])] synthesis_pending"

text \<open>Then the socket closes.\<close>

definition call_ended :: server where
  "call_ended = run test_config [WsClose 1] turn_played"

text \<open>Or the remote end sends a \<^verbatim>\<open>closed\<close> event.\<close>

definition closed_by_peer :: server where
  "closed_by_peer = run test_config [WsMessage 1 closed_frame] turn_played"

text \<open>After that, a new connection under the same call identifier and one utterance.\<close>

definition call_again :: server where
  "call_again =
     run test_config
       [Connection 2 (Some ''CA124''),
        WsMessage 2 (media_frame ''fn5+''),
        SpeechSettled 0 (heard ''hello again'')]
       call_ended"

section \<open>Properties\<close>

subsection \<open>The codec\<close>

text \<open>The exponent, computed on integers: the bit length of \<open>magnitude + 32\<close>, less six.\<close>

lemma log2_32: "log 2 32 = (5::real)"
proof -
  have "log 2 ((2::real) ^ 5) = 5"
    by (subst log_nat_power) simp_all
  then show ?thesis by simp
qed

lemma mu_exponent_floorlog [code]:
  "mu_exponent magnitude = floorlog 2 (magnitude + 32) - 6"
proof -
  define n where "n = magnitude + 32"
  have n32: "32 \<le> n" and nm: "real n = real magnitude + 32"
    by (simp_all add: n_def)
  have e: "1 + real magnitude / 32 = real n / 32"
    using nm by simp
  have "log 2 (real n / 32) = log 2 (real n) - log 2 32"
    using n32 by (simp add: log_divide)
  then have "log 2 (1 + real magnitude / 32) = log 2 (real n) - 5"
    by (simp only: e log2_32)
  then have fl: "\<lfloor>log 2 (1 + real magnitude / 32)\<rfloor> = \<lfloor>log 2 (real n)\<rfloor> - 5"
    by simp
  have "(2::nat) ^ 5 \<le> n" using n32 by simp
  then have "6 \<le> floorlog 2 n"
    using floorlog_ge_SucI [of 2 5 n] by simp
  moreover have "floorlog 2 n = nat \<lfloor>log 2 (real n)\<rfloor> + 1"
    using n32 by (simp add: floorlog_def)
  ultimately show ?thesis
    unfolding mu_exponent_def fl n_def [symmetric] by simp
qed

text \<open>
  Where \<^verbatim>\<open>muLawToPcm\<close> returns, it returns two bytes for every byte of its input;
  in particular an empty buffer for an empty one.
\<close>

lemma muLawToPcm_length: "muLawToPcm bs = Inr r \<Longrightarrow> length r = 2 * length bs"
  by (induction bs arbitrary: r)
    (auto simp: writeInt16LE_def split: sum.splits if_splits)

text \<open>It returns exactly when every sample fits sixteen bits.\<close>

lemma muLawToPcm_returns_iff:
  "(\<exists>r. muLawToPcm bs = Inr r)
     \<longleftrightarrow> (\<forall>b \<in> set bs. - 32768 \<le> muLaw_sample b \<and> muLaw_sample b \<le> 32767)"
  by (induction bs) (auto simp: writeInt16LE_def split: sum.splits)

text \<open>
  Claim C1 says that \<^verbatim>\<open>muLawToPcm\<close> is total: it returns a PCM buffer for every
  sequence of companded bytes. The byte \<open>0x00\<close> (the loudest negative sample of the
  format) has mantissa 15 and exponent 7 after inversion; the magnitude
  \<open>(15 * 16 + 8) * 2 ^ 10 = 253952\<close> does not fit sixteen bits and the write throws.
\<close>

theorem decode_raises_on_byte_zero: "muLawToPcm [0x00] = Inl RangeError"
  by code_simp

text \<open>
  Claim C6 says that decoding an encoded sample gives a value near the sample. The
  sample 2048 (bytes \<open>00 08\<close>) is encoded as \<open>0x9B\<close>, exponent 6 and mantissa 4,
  and decoding \<open>0x9B\<close> throws, since \<open>(4 * 16 + 8) * 2 ^ 9 = 36864\<close>: the round trip
  returns no value at all.
\<close>

theorem round_trip_raises_at_2048:
  "pcmToMuLaw [0x00, 0x08, 0x00, 0x00] = Inr [0x9B] \<and> muLawToPcm [0x9B] = Inl RangeError"
  by code_simp

text \<open>
  Where the round trip does return, the result can be far from the sample: 1000 (bytes
  \<open>E8 03\<close>) comes back as 14336 (bytes \<open>00 38\<close>), and silence as 64.
\<close>

lemma round_trip_of_1000:
  "pcmToMuLaw [0xE8, 0x03, 0x00, 0x00] = Inr [0xAC] \<and> muLawToPcm [0xAC] = Inr [0x00, 0x38]"
  by code_simp

lemma round_trip_of_silence:
  "pcmToMuLaw [0x00, 0x00, 0x00, 0x00] = Inr [0xFF] \<and> muLawToPcm [0xFF] = Inr [0x40, 0x00]"
  by code_simp

subsection \<open>Connections and teardown\<close>

text \<open>
  Claim C3 says that a connection under a call identifier that already maps to a live
  session is rejected. In the run \<open>connected_twice\<close> the second connection carries the
  identifier of the first: it is not closed, both sockets have their listeners, and the
  table now maps the identifier to the second socket.
\<close>

theorem duplicate_connection_accepted:
  "sessions connected_twice = [(1, ''CA123''), (2, ''CA123'')]
     \<and> close_calls connected_twice = []
     \<and> connections connected_twice ''CA123'' = Some 2"
  by code_simp

text \<open>
  Claim C3, as the code has it: a connection that carries a non-empty call identifier
  (other than the reserved name \<^verbatim>\<open>__proto__\<close>) is always accepted, whatever the table
  holds; its socket is stored under the identifier, replacing an earlier entry, and gets
  its listeners. A connection without a call identifier, absent or empty, is closed and
  nothing is registered.
\<close>

theorem connection_registers_or_refuses:
  "(callSid \<noteq> '''' \<and> callSid \<noteq> ''__proto__'' \<longrightarrow>
      step cfg (Connection w (Some callSid)) st
        = st\<lparr>connections := (connections st)(callSid \<mapsto> w),
             sessions := sessions st @ [(w, callSid)]\<rparr>)
   \<and> step cfg (Connection w None) st = st\<lparr>close_calls := close_calls st @ [w]\<rparr>
   \<and> step cfg (Connection w (Some '''')) st = st\<lparr>close_calls := close_calls st @ [w]\<rparr>"
  by (simp add: on_connection_def js_set_def)

theorem connection_registers_or_refuses_witness:
  "connections connected_once ''CA123'' = Some 1
   \<and> step test_config (Connection 2 (Some ''CA123'')) connected_once
       = connected_once\<lparr>connections := (connections connected_once)(''CA123'' \<mapsto> 2),
           sessions := sessions connected_once @ [(2, ''CA123'')]\<rparr>
   \<and> step test_config (Connection 3 None) connected_once
       = connected_once\<lparr>close_calls := close_calls connected_once @ [3]\<rparr>"
proof -
  have "connections connected_once ''CA123'' = Some 1"
    by code_simp
  then show ?thesis
    using connection_registers_or_refuses [of "''CA123''" test_config 2 connected_once]
      connection_registers_or_refuses [of "''CA123''" test_config 3 connected_once]
    by simp
qed

text \<open>
  Claim C4 says that the conversation history of a call is discarded when its session
  is destroyed, so that nothing persists across calls under one identifier. In the run
  \<open>call_ended\<close> the socket has closed and the table entry is gone, yet the two turns
  of the call are still in the history table; so they are after a \<^verbatim>\<open>closed\<close> event
  instead of the close. In \<open>call_again\<close> a later connection under the same identifier
  posts them to the chat API in front of its own first utterance.
\<close>

theorem history_survives_close:
  "sessions call_ended = [] \<and> connections call_ended ''CA124'' = None
   \<and> conversationHistory call_ended ''CA124''
       = Some [ChatMessage User ''book a ride'', ChatMessage Assistant ''Sure, booking it.'']
   \<and> conversationHistory closed_by_peer ''CA124''
       = Some [ChatMessage User ''book a ride'', ChatMessage Assistant ''Sure, booking it.'']
   \<and> tasks call_again
       = [AwaitReply ''CA124'' (Socket 2) ''hello again''
            [ChatMessage System ''Be brief.'', ChatMessage User ''book a ride'',
             ChatMessage Assistant ''Sure, booking it.'', ChatMessage User ''hello again'']]"
  by code_simp

text \<open>
  Claim C4, as the code has it: when the socket closes or a \<^verbatim>\<open>closed\<close> event arrives,
  the entry of the call is removed from the connections table, and the conversation
  history table is left as it is.
\<close>

theorem teardown_keeps_history:
  "conversationHistory (step cfg (WsClose w) st) = conversationHistory st
   \<and> conversationHistory (step cfg (WsMessage w (Json (Message (Some ''closed'') m))) st)
       = conversationHistory st
   \<and> (map_of (sessions st) w = Some callSid \<longrightarrow>
        connections (step cfg (WsClose w) st) = (connections st)(callSid := None)
        \<and> connections (step cfg (WsMessage w (Json (Message (Some ''closed'') m))) st)
            = (connections st)(callSid := None))"
  by (simp add: on_close_def on_message_def js_delete_def split: option.splits)

theorem teardown_keeps_history_witness:
  "map_of (sessions turn_played) 1 = Some ''CA124''
   \<and> conversationHistory (step test_config (WsClose 1) turn_played)
       = conversationHistory turn_played
   \<and> connections (step test_config (WsClose 1) turn_played)
       = (connections turn_played)(''CA124'' := None)
   \<and> conversationHistory turn_played ''CA124''
       = Some [ChatMessage User ''book a ride'', ChatMessage Assistant ''Sure, booking it.'']"
proof -
  have s: "map_of (sessions turn_played) 1 = Some ''CA124''"
    by code_simp
  have h: "conversationHistory turn_played ''CA124''
       = Some [ChatMessage User ''book a ride'', ChatMessage Assistant ''Sure, booking it.'']"
    by code_simp
  show ?thesis
    using s h teardown_keeps_history [of test_config 1 turn_played None "''CA124''"]
    by simp
qed

subsection \<open>Turn taking\<close>

text \<open>
  Claim C5 says that a media event that arrives while an earlier utterance of the call
  is being processed is dropped. In the run \<open>two_frames\<close> the second frame arrives
  while the first waits for its transcript, and both pipelines are in flight.
\<close>

theorem second_frame_not_dropped:
  "tasks first_frame_pending = [AwaitTranscribe ''CA123'' (Socket 1) ''fn5+'']
   \<and> tasks two_frames
       = [AwaitTranscribe ''CA123'' (Socket 1) ''fn5+'',
          AwaitTranscribe ''CA123'' (Socket 1) ''f39/'']"
  by code_simp

text \<open>
  Claim C5, as the code has it: with a speech API key configured, every media event
  with a non-empty payload, on a socket whose call identifier is in the connections
  table, starts a pipeline of its own, whatever pipelines are in flight; the handler
  keeps no processing state and drops no frame.
\<close>

theorem media_frame_always_starts_pipeline:
  assumes "map_of (sessions st) w = Some callSid"
    and "connections st callSid = Some w'"
    and "audio \<noteq> ''''"
    and "GOOGLE_SPEECH_API_KEY cfg \<noteq> ''''"
  shows "step cfg (WsMessage w (Json (Message (Some ''media'') (Some (Media (Some audio)))))) st
           = st\<lparr>tasks := tasks st @ [AwaitTranscribe callSid (Socket w') audio]\<rparr>"
  using assms
  by (simp add: on_message_def handleMediaMessage_def js_get_def
        handleMediaMessage_transcribe_def suspend_def)

theorem media_frame_always_starts_pipeline_witness:
  "tasks first_frame_pending = [AwaitTranscribe ''CA123'' (Socket 1) ''fn5+'']
   \<and> step test_config
         (WsMessage 1 (Json (Message (Some ''media'') (Some (Media (Some ''f39/''))))))
         first_frame_pending
       = first_frame_pending\<lparr>tasks := tasks first_frame_pending
           @ [AwaitTranscribe ''CA123'' (Socket 1) ''f39/'']\<rparr>"
proof -
  have t: "tasks first_frame_pending = [AwaitTranscribe ''CA123'' (Socket 1) ''fn5+'']"
    by code_simp
  have s: "map_of (sessions first_frame_pending) 1 = Some ''CA123''"
    by code_simp
  have c: "connections first_frame_pending ''CA123'' = Some 1"
    by code_simp
  have a: "''f39/'' \<noteq> ''''"
    by simp
  have k: "GOOGLE_SPEECH_API_KEY test_config \<noteq> ''''"
    by (simp add: test_config_def)
  show ?thesis
    using t media_frame_always_starts_pipeline [OF s c a k] by simp
qed

text \<open>
  Claim C8: when the transcription of a media event is empty, no reply is generated and
  no frame is sent; the pipeline ends there. Without a speech API key the transcript is
  empty at once and the media event changes nothing. With a key, an empty transcript
  ends the suspended pipeline and changes nothing else; a failing speech API counts as an
  empty transcript.
\<close>

theorem empty_transcript_is_silent:
  "(GOOGLE_SPEECH_API_KEY cfg = '''' \<longrightarrow>
      step cfg (WsMessage w (Json (Message (Some ''media'') m))) st = st)
   \<and> (i < length (tasks st) \<and> tasks st ! i = AwaitTranscribe callSid sock audio
        \<and> transcribeAudio_resume outcome = '''' \<longrightarrow>
      step cfg (SpeechSettled i outcome) st = finish_task i st)
   \<and> transcribeAudio_resume (Inl err) = ''''"
  by (simp add: on_message_def handleMediaMessage_def handleMediaMessage_transcribe_def
        handleMediaMessage_transcribed_def transcribeAudio_resume_def
        split: option.splits property.splits)

theorem empty_transcript_is_silent_witness:
  "step no_key_config (WsMessage 1 (media_frame ''fn5+'')) connected_once = connected_once
   \<and> step test_config (SpeechSettled 0 (heard '''')) first_frame_pending
       = finish_task 0 first_frame_pending
   \<and> step test_config (SpeechSettled 0 (Inl AxiosError)) first_frame_pending
       = finish_task 0 first_frame_pending
   \<and> outbox (finish_task 0 first_frame_pending) = []
   \<and> tasks (finish_task 0 first_frame_pending) = []"
proof -
  have k: "GOOGLE_SPEECH_API_KEY no_key_config = ''''"
    by (simp add: no_key_config_def)
  have l: "0 < length (tasks first_frame_pending)"
    by code_simp
  have t: "tasks first_frame_pending ! 0 = AwaitTranscribe ''CA123'' (Socket 1) ''fn5+''"
    by code_simp
  have e: "transcribeAudio_resume (heard '''') = ''''"
    by code_simp
  have o: "outbox (finish_task 0 first_frame_pending) = []"
    by code_simp
  have f: "tasks (finish_task 0 first_frame_pending) = []"
    by code_simp
  show ?thesis
    using k l t e o f
      empty_transcript_is_silent [of no_key_config 1 "Some (Media (Some ''fn5+''))"
        connected_once]
      empty_transcript_is_silent [of test_config _ _ first_frame_pending 0 "''CA123''"
        "Socket 1" "''fn5+''" "heard ''''" AxiosError]
      empty_transcript_is_silent [of test_config _ _ first_frame_pending 0 "''CA123''"
        "Socket 1" "''fn5+''" "Inl AxiosError" AxiosError]
    by (simp add: media_frame_def)
qed

subsection \<open>Outbound traffic\<close>

lemma one_burst_refl: "one_burst st st"
  by (simp add: one_burst_def)

lemma one_burst_outbox_eq:
  "outbox st1 = outbox st \<Longrightarrow> one_burst st1 st' \<Longrightarrow> one_burst st st'"
  by (simp add: one_burst_def)

lemma synthesized_one_burst: "one_burst st (handleMediaMessage_synthesized sock a st)"
  by (auto simp: one_burst_def handleMediaMessage_synthesized_def reject_def
      split: sum.splits ws_ref.splits)

lemma replied_one_burst: "one_burst st (handleMediaMessage_replied sock reply st)"
  using synthesized_one_burst [of st sock "[]"]
  by (simp add: handleMediaMessage_replied_def one_burst_def suspend_def)

lemma transcribed_one_burst:
  "one_burst st (handleMediaMessage_transcribed cfg callSid sock t st)"
  using replied_one_burst [of st sock]
  by (auto simp: handleMediaMessage_transcribed_def one_burst_def suspend_def reject_def
      split: llm_begin.splits)

lemma handle_one_burst: "one_burst st (handleMediaMessage cfg callSid msg st)"
  using transcribed_one_burst [of st cfg callSid _ "''''"]
  by (auto simp: handleMediaMessage_def handleMediaMessage_transcribe_def one_burst_def
      suspend_def split: option.splits property.splits)

text \<open>Every event makes the server send nothing, or one \<^verbatim>\<open>clear\<close> and one media frame.\<close>

lemma step_one_burst: "one_burst st (step cfg ev st)"
proof (cases ev)
  case (Connection w q)
  then show ?thesis
    by (simp add: on_connection_def one_burst_def split: option.splits)
next
  case (WsMessage w d)
  then show ?thesis
    using handle_one_burst [of st cfg]
    by (auto simp: on_message_def one_burst_def reject_def
        split: option.splits ws_data.splits)
next
  case (WsClose w)
  then show ?thesis
    by (simp add: on_close_def one_burst_def split: option.splits)
next
  case (SpeechSettled i outcome)
  have "one_burst st (handleMediaMessage_transcribed cfg callSid sock t (finish_task i st))"
    for callSid sock t
    by (rule one_burst_outbox_eq [OF _ transcribed_one_burst]) (simp add: finish_task_def)
  with SpeechSettled show ?thesis
    by (simp add: one_burst_refl split: task.splits)
next
  case (ChatSettled i outcome)
  have "one_burst st (handleMediaMessage_replied sock reply
          (finish_task i (st\<lparr>conversationHistory := h\<rparr>)))" for sock reply h
    by (rule one_burst_outbox_eq [OF _ replied_one_burst]) (simp add: finish_task_def)
  with ChatSettled show ?thesis
    by (simp add: one_burst_refl split: task.splits prod.splits)
next
  case (PollySettled i outcome)
  have "one_burst st (handleMediaMessage_synthesized sock a (finish_task i st))" for sock a
    by (rule one_burst_outbox_eq [OF _ synthesized_one_burst]) (simp add: finish_task_def)
  moreover have "one_burst st (reject e (finish_task i st))" for e
    by (simp add: one_burst_def reject_def finish_task_def)
  ultimately show ?thesis
    using PollySettled by (simp add: one_burst_refl split: task.splits sum.splits)
qed

lemma response_bursts_append:
  "response_bursts xs \<Longrightarrow> response_bursts (xs @ [(w, Clear), (w, MediaOut b)])"
  by (induction xs rule: response_bursts.induct) simp_all

lemma one_burst_preserves:
  "one_burst st st' \<Longrightarrow> response_bursts (outbox st) \<Longrightarrow> response_bursts (outbox st')"
  by (auto simp: one_burst_def response_bursts_append)

lemma run_response_bursts:
  "response_bursts (outbox st) \<Longrightarrow> response_bursts (outbox (run cfg evs st))"
  by (induction evs arbitrary: st) (simp_all add: one_burst_preserves [OF step_one_burst])

text \<open>
  Claim C9: every outbound media frame is preceded by exactly one \<^verbatim>\<open>clear\<close> frame in
  the same burst, and the handler sends frames of these two shapes only. Whatever
  events the server has received since it started, the frames it has sent are a
  sequence of pairs, a \<^verbatim>\<open>clear\<close> followed at once by a media frame on the same socket.
\<close>

theorem replies_are_clear_then_media:
  "response_bursts (outbox (run cfg evs initial))"
  by (rule run_response_bursts) (simp add: initial_def)

theorem replies_are_clear_then_media_witness:
  "response_bursts (outbox turn_played)
   \<and> outbox turn_played = [(1, Clear), (1, MediaOut [0xCB])]"
proof -
  have r: "turn_played =
      run test_config
        [Connection 1 (Some ''CA124''), WsMessage 1 (media_frame ''fn5+''),
         SpeechSettled 0 (heard ''book a ride''),
         ChatSettled 0 (answered '' Sure, booking it. ''),
         PollySettled 0 (Inr [0x00, 0x01, 0x00, 0x00])]
        initial"
    by (simp add: turn_played_def synthesis_pending_def reply_pending_def)
  have o: "outbox turn_played = [(1, Clear), (1, MediaOut [0xCB])]"
    by code_simp
  show ?thesis
    using o replies_are_clear_then_media
      [of test_config
        "[Connection 1 (Some ''CA124''), WsMessage 1 (media_frame ''fn5+''),
          SpeechSettled 0 (heard ''book a ride''),
          ChatSettled 0 (answered '' Sure, booking it. ''),
          PollySettled 0 (Inr [0x00, 0x01, 0x00, 0x00])]"]
    by (simp only: r [symmetric])
qed

subsection \<open>Failing services\<close>

text \<open>
  Claim C2 says that a failing synthesis is caught locally and never reaches the socket
  layer. In the run \<open>synthesis_fails\<close> the rejection of Polly leaves
  \<^verbatim>\<open>handleMediaMessage\<close> and rejects the promise of the message listener; no frame
  is sent and no second synthesis is started.
\<close>

theorem synthesis_failure_reaches_listener:
  "tasks synthesis_pending = [AwaitSynth (Socket 1) ''Sure, booking it.'']
   \<and> unhandled synthesis_fails = [PollyError]
   \<and> outbox synthesis_fails = []
   \<and> tasks synthesis_fails = []"
  by code_simp

text \<open>This does not depend on the run: a rejected synthesis always ends up there.\<close>

lemma synthesis_failure_propagates:
  "i < length (tasks st) \<Longrightarrow> tasks st ! i = AwaitSynth sock reply \<Longrightarrow>
     step cfg (PollySettled i (Inl err)) st = reject err (finish_task i st)"
  by (simp add: synthesizeSpeech_resume_def)

text \<open>
  Claim C7: for every non-empty transcript, if the call to the chat API fails, the echo
  \<^verbatim>\<open>You said: <transcript>\<close> takes the place of the reply and the error goes no
  further. A pipeline that waits for the reply to an utterance goes on to ask Polly for
  the echo when the call is rejected; nothing else in the state changes, so no error
  reaches the listener. (For a transcript of white space only no call is made.)
\<close>

theorem reply_failure_falls_back:
  assumes "i < length (tasks st)"
    and "tasks st ! i = AwaitReply callSid sock transcript messages"
  shows "step cfg (ChatSettled i (Inl err)) st
           = suspend (AwaitSynth sock (''You said: '' @ transcript)) (finish_task i st)"
  using assms
  by (simp add: generateLLMReply_resume_def handleMediaMessage_replied_def)

theorem reply_failure_falls_back_witness:
  "step test_config (ChatSettled 0 (Inl AxiosError)) reply_pending
     = suspend (AwaitSynth (Socket 1) ''You said: book a ride'') (finish_task 0 reply_pending)
   \<and> unhandled (suspend (AwaitSynth (Socket 1) ''You said: book a ride'')
        (finish_task 0 reply_pending)) = []"
proof -
  have l: "0 < length (tasks reply_pending)"
    by code_simp
  have t: "tasks reply_pending ! 0
      = AwaitReply ''CA124'' (Socket 1) ''book a ride''
          [ChatMessage System ''Be brief.'', ChatMessage User ''book a ride'']"
    by code_simp
  have u: "unhandled (suspend (AwaitSynth (Socket 1) ''You said: book a ride'')
        (finish_task 0 reply_pending)) = []"
    by code_simp
  show ?thesis
    using u reply_failure_falls_back [OF l t, of test_config AxiosError] by simp
qed

lemma begin_history:
  "generateLLMReply_begin cfg t callSid hist = Post messages hist' \<Longrightarrow>
     hist' callSid = Some (turns hist callSid) \<and> (\<forall>k. k \<noteq> callSid \<longrightarrow> hist' k = hist k)
     \<and> messages = ChatMessage System (systemPrompt cfg) # turns hist callSid @ [ChatMessage User t]"
  by (auto simp: generateLLMReply_begin_def js_get_def js_set_def turns_def
      object_prototype_keys_def split: if_splits option.splits)

lemma begin_Return:
  "generateLLMReply_begin cfg t callSid hist = Return r \<Longrightarrow> trim t = ''''"
  by (auto simp: generateLLMReply_begin_def trim_def split: if_splits property.splits)

lemma resume_success:
  "hist callSid = Some h \<Longrightarrow>
     generateLLMReply_resume t callSid (Inr (Choice (Some c) # cs)) hist
       = (trim c, hist(callSid \<mapsto> h @ [ChatMessage User t, ChatMessage Assistant (trim c)]))"
  by (simp add: generateLLMReply_resume_def Let_def)

text \<open>
  Claim C10: if the call to the chat API fails, the conversation history of the call is
  left unchanged, neither the utterance nor the echo is appended; the caller's and the
  agent's turn are recorded, in that order and together, only when the reply arrives.
  This holds of \<^verbatim>\<open>generateLLMReply\<close> as one call (the turns of the call are the same
  before and after a failure, a first call only creates the empty entry), and of a
  suspended pipeline whose call is rejected.
\<close>

theorem failed_reply_leaves_history:
  "(generateLLMReply cfg transcript callSid (Inl err) hist = Inr (reply, hist') \<longrightarrow>
      turns hist' callSid = turns hist callSid \<and> (\<forall>k. k \<noteq> callSid \<longrightarrow> hist' k = hist k))
   \<and> (trim transcript \<noteq> ''''
        \<and> generateLLMReply cfg transcript callSid (Inr (Choice (Some c) # cs)) hist
            = Inr (reply, hist') \<longrightarrow>
      reply = trim c
      \<and> turns hist' callSid
          = turns hist callSid @ [ChatMessage User transcript, ChatMessage Assistant (trim c)]
      \<and> (\<forall>k. k \<noteq> callSid \<longrightarrow> hist' k = hist k))
   \<and> (i < length (tasks st) \<and> tasks st ! i = AwaitReply callSid sock transcript messages \<longrightarrow>
      conversationHistory (step cfg (ChatSettled i (Inl err)) st) = conversationHistory st)"
proof (intro conjI impI)
  assume a: "generateLLMReply cfg transcript callSid (Inl err) hist = Inr (reply, hist')"
  show "turns hist' callSid = turns hist callSid"
    using a begin_history [of cfg transcript callSid hist]
    by (auto simp: generateLLMReply_def generateLLMReply_resume_def turns_def
        split: llm_begin.splits)
  show "\<forall>k. k \<noteq> callSid \<longrightarrow> hist' k = hist k"
    using a begin_history [of cfg transcript callSid hist]
    by (auto simp: generateLLMReply_def generateLLMReply_resume_def
        split: llm_begin.splits)
next
  assume a: "trim transcript \<noteq> ''''
        \<and> generateLLMReply cfg transcript callSid (Inr (Choice (Some c) # cs)) hist
            = Inr (reply, hist')"
  then obtain posted h1
    where b: "generateLLMReply_begin cfg transcript callSid hist = Post posted h1"
      and r: "generateLLMReply_resume transcript callSid (Inr (Choice (Some c) # cs)) h1
                = (reply, hist')"
    by (auto simp: generateLLMReply_def split: llm_begin.splits dest: begin_Return)
  note h = begin_history [OF b]
  have e: "generateLLMReply_resume transcript callSid (Inr (Choice (Some c) # cs)) h1
             = (trim c, h1(callSid \<mapsto> turns hist callSid
                 @ [ChatMessage User transcript, ChatMessage Assistant (trim c)]))"
    using h by (intro resume_success) simp
  have r': "(reply, hist') = (trim c, h1(callSid \<mapsto> turns hist callSid
               @ [ChatMessage User transcript, ChatMessage Assistant (trim c)]))"
    by (rule trans [OF r [symmetric] e])
  show "reply = trim c"
    using r' by simp
  show "turns hist' callSid
          = turns hist callSid @ [ChatMessage User transcript, ChatMessage Assistant (trim c)]"
    using r' by (simp add: turns_def)
  show "\<forall>k. k \<noteq> callSid \<longrightarrow> hist' k = hist k"
    using r' h by simp
next
  assume "i < length (tasks st) \<and> tasks st ! i = AwaitReply callSid sock transcript messages"
  then show "conversationHistory (step cfg (ChatSettled i (Inl err)) st) = conversationHistory st"
    by (simp add: generateLLMReply_resume_def handleMediaMessage_replied_def suspend_def
        finish_task_def)
qed

theorem failed_reply_leaves_history_witness:
  "generateLLMReply test_config ''book a ride'' ''CA124'' (Inl AxiosError) Map.empty
     = Inr (''You said: book a ride'', [''CA124'' \<mapsto> []])
   \<and> turns [''CA124'' \<mapsto> []] ''CA124'' = turns Map.empty ''CA124''
   \<and> trim ''book a ride'' \<noteq> ''''
   \<and> generateLLMReply test_config ''book a ride'' ''CA124''
         (Inr [Choice (Some '' Sure, booking it. '')]) Map.empty
       = Inr (''Sure, booking it.'',
           [''CA124'' \<mapsto> [ChatMessage User ''book a ride'',
                           ChatMessage Assistant ''Sure, booking it.'']])
   \<and> turns [''CA124'' \<mapsto> [ChatMessage User ''book a ride'',
                          ChatMessage Assistant ''Sure, booking it.'']] ''CA124''
       = turns Map.empty ''CA124''
           @ [ChatMessage User ''book a ride'', ChatMessage Assistant ''Sure, booking it.'']
   \<and> conversationHistory (step test_config (ChatSettled 0 (Inl AxiosError)) reply_pending)
       = conversationHistory reply_pending"
proof -
  have n: "trim ''book a ride'' \<noteq> ''''"
    by (simp add: trim_def js_whitespace_def)
  have c: "trim '' Sure, booking it. '' = ''Sure, booking it.''"
    by (simp add: trim_def js_whitespace_def)
  have f: "generateLLMReply test_config ''book a ride'' ''CA124'' (Inl AxiosError) Map.empty
     = Inr (''You said: book a ride'', [''CA124'' \<mapsto> []])"
    using n
    by (simp add: generateLLMReply_def generateLLMReply_begin_def generateLLMReply_resume_def
        js_get_def js_set_def object_prototype_keys_def)
  have g: "generateLLMReply test_config ''book a ride'' ''CA124''
         (Inr [Choice (Some '' Sure, booking it. '')]) Map.empty
       = Inr (''Sure, booking it.'',
           [''CA124'' \<mapsto> [ChatMessage User ''book a ride'',
                           ChatMessage Assistant ''Sure, booking it.'']])"
    using n c
    by (simp add: generateLLMReply_def generateLLMReply_begin_def generateLLMReply_resume_def
        js_get_def js_set_def object_prototype_keys_def Let_def)
  have l: "0 < length (tasks reply_pending)"
    by code_simp
  have t: "tasks reply_pending ! 0
      = AwaitReply ''CA124'' (Socket 1) ''book a ride''
          [ChatMessage System ''Be brief.'', ChatMessage User ''book a ride'']"
    by code_simp
  note p1 = failed_reply_leaves_history [THEN conjunct1, rule_format, OF f]
  note p2 = failed_reply_leaves_history [THEN conjunct2, THEN conjunct1, rule_format,
      OF conjI [OF n g]]
  note p3 = failed_reply_leaves_history [THEN conjunct2, THEN conjunct2, rule_format,
      OF conjI [OF l t], of test_config AxiosError]
  have w1: "turns [''CA124'' \<mapsto> []] ''CA124'' = turns Map.empty ''CA124''"
    using p1 by simp
  have w2: "turns [''CA124'' \<mapsto> [ChatMessage User ''book a ride'',
                          ChatMessage Assistant ''Sure, booking it.'']] ''CA124''
       = turns Map.empty ''CA124''
           @ [ChatMessage User ''book a ride'', ChatMessage Assistant ''Sure, booking it.'']"
    using p2 c by simp
  show ?thesis
    by (intro conjI f w1 n g w2 p3)
qed

end
